theory Spec2Isabelle
  imports Complex_Main
begin

section \<open>JavaScript values and string helpers\<close>

text \<open>
  Failures a handler can raise: a \<open>TypeError\<close> of the language (reading a property of
  \<open>undefined\<close>, calling a method the class does not have), a rejected HTTP request of
  axios, and a rejected call of the Telegram bot API.
\<close>

datatype err = TypeError | HttpError | TelegramError

text \<open>The JavaScript values that travel as a card number: \<open>null\<close>, \<open>NaN\<close>, an integer, a string.\<close>

datatype jsval = JNull | JNaN | JNum int | JStr string

text \<open>\<open>Number.prototype.toString\<close> on an integer: decimal digits, with a sign when negative.\<close>

fun digits :: "nat \<Rightarrow> string" where
  "digits n = (if n < 10 then [char_of (48 + n)] else digits (n div 10) @ [char_of (48 + n mod 10)])"

declare digits.simps [simp del]

definition toString :: "int \<Rightarrow> string" where
  "toString i = (if i < 0 then CHR ''-'' # digits (nat (- i)) else digits (nat i))"

text \<open>\<open>String.prototype.padStart(n, c)\<close> with a one-character filler.\<close>

definition padStart :: "nat \<Rightarrow> char \<Rightarrow> string \<Rightarrow> string" where
  "padStart n c s = replicate (n - length s) c @ s"

section \<open>Card model\<close>

text \<open>
  The column letters. A cell, as the clients read it: \<open>cell.letter\<close>, \<open>cell.number\<close>
  (absent on the free cell), \<open>cell.free\<close>, \<open>cell.called\<close>. A card, as the clients read it:
  \<open>card.number\<close> and the grid \<open>card.numbers[row][col]\<close>.
\<close>

datatype letter = Letter_B | Letter_I | Letter_N | Letter_G | Letter_O

fun letter_str :: "letter \<Rightarrow> string" where
  "letter_str Letter_B = ''B''"
| "letter_str Letter_I = ''I''"
| "letter_str Letter_N = ''N''"
| "letter_str Letter_G = ''G''"
| "letter_str Letter_O = ''O''"

record cell =
  letter :: letter
  number :: "int option"
  free :: bool
  called :: bool

record bingo_card =
  card_number :: nat
  numbers :: "cell list list"

text \<open>
  \<open>card.numbers[row][col]\<close>: \<open>None\<close> stands for \<open>undefined\<close> (a row or a cell that is
  not there); reading a property of it raises a \<open>TypeError\<close>.
\<close>

definition cellAt :: "bingo_card \<Rightarrow> nat \<Rightarrow> nat \<Rightarrow> cell option" where
  "cellAt crd row col =
     (if row < length (numbers crd)
      then (if col < length (numbers crd ! row) then Some (numbers crd ! row ! col) else None)
      else None)"

text \<open>\<open>card.numbers[row][col].called\<close>, read as a truth value: a position with no cell is not called.\<close>

definition isCalled :: "bingo_card \<Rightarrow> nat \<Rightarrow> nat \<Rightarrow> bool" where
  "isCalled crd row col = (case cellAt crd row col of None \<Rightarrow> False | Some cell \<Rightarrow> called cell)"

subsection \<open>formatCardAsText (bot)\<close>

text \<open>
  The horizontal rule of the header is the box-drawing character U+2500, five times five;
  it is written here as its three UTF-8 bytes.
\<close>

definition hrule :: string where
  "hrule = [CHR 0xE2, CHR 0x94, CHR 0x80]"

definition newline :: string where
  "newline = [CHR 0x0A]"

text \<open>
  The inner loop over \<open>col\<close>: a free cell prints \<open>FREE\<close>; any other cell prints its letter
  and \<open>cell.number.toString().padStart(2, '0')\<close>, which raises when the number is absent.
\<close>

fun formatCells :: "bingo_card \<Rightarrow> nat \<Rightarrow> nat list \<Rightarrow> string \<Rightarrow> err + string" where
  "formatCells crd row [] rowText = Inr rowText"
| "formatCells crd row (col # cols) rowText =
     (case cellAt crd row col of
        None \<Rightarrow> Inl TypeError
      | Some cell \<Rightarrow>
          if free cell then formatCells crd row cols (rowText @ '' FREE '')
          else (case number cell of
                  None \<Rightarrow> Inl TypeError
                | Some n \<Rightarrow>
                    formatCells crd row cols
                      (rowText @ '' '' @ letter_str (letter cell) @ padStart 2 (CHR ''0'') (toString n) @ '' '')))"

fun formatRows :: "bingo_card \<Rightarrow> nat list \<Rightarrow> string \<Rightarrow> err + string" where
  "formatRows crd [] text = Inr text"
| "formatRows crd (row # rows) text =
     (case formatCells crd row [0..<5] (toString (int row + 1) @ '' |'') of
        Inl e \<Rightarrow> Inl e
      | Inr rowText \<Rightarrow> formatRows crd rows (text @ rowText @ newline))"

definition formatCardAsText :: "bingo_card \<Rightarrow> err + string" where
  "formatCardAsText crd =
     formatRows crd [0..<5]
       (''     '' @ ''B    I    N    G    O'' @ newline
        @ ''   '' @ concat (replicate 5 (concat (replicate 5 hrule))) @ newline)"

subsection \<open>Marked count (bot: showUserCards; web: GameRoom)\<close>

text \<open>\<open>Array.prototype.flat()\<close> on an array of rows.\<close>

definition flat :: "'a list list \<Rightarrow> 'a list" where
  "flat rows = concat rows"

text \<open>\<open>card.numbers.flat().filter(n => n.called).length\<close> in \<open>showUserCards\<close>.\<close>

definition showUserCards_marked :: "bingo_card \<Rightarrow> nat" where
  "showUserCards_marked crd = length (filter (\<lambda>n. called n) (flat (numbers crd)))"

text \<open>\<open>selectedCard.numbers.flat().filter(cell => cell.called).length\<close> in \<open>GameRoom\<close>.\<close>

definition GameRoom_marked :: "bingo_card \<Rightarrow> nat" where
  "GameRoom_marked selectedCard = length (filter (\<lambda>cell. called cell) (flat (numbers selectedCard)))"

subsection \<open>Card construction and marking\<close>

text \<open>
  Modelled from the spec: the card builder \<open>buildCard(number, columnRanges)\<close>, the marking
  step \<open>applyCalledNumber(card, letter, number)\<close> and the win detector are not among the
  source files (the bot and the web client receive cards from the backend and send claims
  to it). They follow sections 3, 4.1 and 4.2 of the specification.

  Columns map to letters by \<open>{0:B, 1:I, 2:N, 3:G, 4:O}\<close>. The specification does not
  reproduce the per-column ranges nor the drawing rule ("backend-assigned"), so
  \<open>columnRanges col row\<close> stands for the number the backend assigns to the cell of column
  \<open>col\<close> in row \<open>row\<close>. The cell at row 2, column 2 is the free cell: it carries no
  number and is marked from the start; every other cell carries its number and starts unmarked.
\<close>

definition columnLetter :: "nat \<Rightarrow> letter" where
  "columnLetter col =
     (if col = 0 then Letter_B else if col = 1 then Letter_I else if col = 2 then Letter_N
      else if col = 3 then Letter_G else Letter_O)"

definition buildCell :: "(nat \<Rightarrow> nat \<Rightarrow> int) \<Rightarrow> nat \<Rightarrow> nat \<Rightarrow> cell" where
  "buildCell columnRanges row col =
     (if row = 2 \<and> col = 2
      then \<lparr>letter = columnLetter col, number = None, free = True, called = True\<rparr>
      else \<lparr>letter = columnLetter col, number = Some (columnRanges col row), free = False, called = False\<rparr>)"

definition buildCard :: "nat \<Rightarrow> (nat \<Rightarrow> nat \<Rightarrow> int) \<Rightarrow> bingo_card" where
  "buildCard n columnRanges =
     \<lparr>card_number = n,
      numbers = map (\<lambda>row. map (\<lambda>col. buildCell columnRanges row col) [0..<5]) [0..<5]\<rparr>"

text \<open>
  Modelled from the spec: \<open>applyCalledNumber\<close> scans all non-free cells and sets
  \<open>called\<close> on those that match the letter and the number; a call that matches no cell
  changes nothing.
\<close>

definition markCell :: "letter \<Rightarrow> int \<Rightarrow> cell \<Rightarrow> cell" where
  "markCell l n cell =
     (if \<not> free cell \<and> letter cell = l \<and> number cell = Some n then cell\<lparr>called := True\<rparr> else cell)"

definition applyCalledNumber :: "bingo_card \<Rightarrow> letter \<Rightarrow> int \<Rightarrow> bingo_card" where
  "applyCalledNumber crd l n = crd\<lparr>numbers := map (map (markCell l n)) (numbers crd)\<rparr>"

subsection \<open>Win detector\<close>

text \<open>
  Modelled from the spec: the patterns are the five rows (top to bottom), then the five
  columns (left to right), then the two full diagonals; a pattern is complete when every
  cell it covers is called; the detector returns the first complete pattern in that order,
  or no win.
\<close>

datatype pattern = Row nat | Column nat | Diagonal | AntiDiagonal

fun patternCells :: "pattern \<Rightarrow> (nat \<times> nat) list" where
  "patternCells (Row r) = map (\<lambda>c. (r, c)) [0..<5]"
| "patternCells (Column c) = map (\<lambda>r. (r, c)) [0..<5]"
| "patternCells Diagonal = map (\<lambda>i. (i, i)) [0..<5]"
| "patternCells AntiDiagonal = map (\<lambda>i. (i, 4 - i)) [0..<5]"

definition allPatterns :: "pattern list" where
  "allPatterns = map Row [0..<5] @ map Column [0..<5] @ [Diagonal, AntiDiagonal]"

definition isComplete :: "bingo_card \<Rightarrow> pattern \<Rightarrow> bool" where
  "isComplete crd p = list_all (\<lambda>(row, col). isCalled crd row col) (patternCells p)"

definition detectWin :: "bingo_card \<Rightarrow> pattern option" where
  "detectWin crd = find (isComplete crd) allPatterns"


section \<open>The Telegram bot\<close>

subsection \<open>String operations of the callback dispatch\<close>

text \<open>
  \<open>startsWith\<close>, \<open>replace\<close> with a string pattern (the first occurrence only),
  \<open>split\<close> on a one-character separator, array destructuring (an absent element is
  \<open>undefined\<close>, here \<open>None\<close>), and \<open>parseInt\<close> without a radix: leading white space,
  an optional sign, then hexadecimal digits after \<open>0x\<close> or decimal digits otherwise, as far
  as they go; \<open>NaN\<close> when there is none. Integers stand for the JavaScript numbers.
\<close>

definition startsWith :: "string \<Rightarrow> string \<Rightarrow> bool" where
  "startsWith s p = (take (length p) s = p)"

fun replaceFirst :: "string \<Rightarrow> string \<Rightarrow> string \<Rightarrow> string" where
  "replaceFirst [] p r = (if p = [] then r else [])"
| "replaceFirst (c # s) p r =
     (if take (length p) (c # s) = p then r @ drop (length p) (c # s)
      else c # replaceFirst s p r)"

fun split :: "char \<Rightarrow> string \<Rightarrow> string list" where
  "split sep [] = [[]]"
| "split sep (c # s) =
     (if c = sep then [] # split sep s
      else (case split sep s of [] \<Rightarrow> [[c]] | x # xs \<Rightarrow> (c # x) # xs))"

definition element :: "'a list \<Rightarrow> nat \<Rightarrow> 'a option" where
  "element xs i = (if i < length xs then Some (xs ! i) else None)"

definition isSpace :: "char \<Rightarrow> bool" where
  "isSpace c = (c \<in> {CHR '' '', CHR 0x09, CHR 0x0A, CHR 0x0B, CHR 0x0C, CHR 0x0D})"

definition digitValue :: "char \<Rightarrow> nat option" where
  "digitValue c =
     (let k = (of_char c :: nat) in
      if 48 \<le> k \<and> k \<le> 57 then Some (k - 48)
      else if 97 \<le> k \<and> k \<le> 102 then Some (k - 87)
      else if 65 \<le> k \<and> k \<le> 70 then Some (k - 55)
      else None)"

definition isDigitIn :: "nat \<Rightarrow> char \<Rightarrow> bool" where
  "isDigitIn radix c = (case digitValue c of None \<Rightarrow> False | Some v \<Rightarrow> v < radix)"

definition digitsValue :: "nat \<Rightarrow> string \<Rightarrow> nat" where
  "digitsValue radix ds = foldl (\<lambda>acc c. acc * radix + (case digitValue c of None \<Rightarrow> 0 | Some v \<Rightarrow> v)) 0 ds"

definition parseDigits :: "nat \<Rightarrow> int \<Rightarrow> string \<Rightarrow> jsval" where
  "parseDigits radix sign s =
     (let ds = takeWhile (isDigitIn radix) s
      in if ds = [] then JNaN else JNum (sign * int (digitsValue radix ds)))"

definition parseInt :: "string option \<Rightarrow> jsval" where
  "parseInt arg =
     (case arg of
        None \<Rightarrow> JNaN
      | Some str \<Rightarrow>
          (let s = dropWhile isSpace str;
               sign = (if startsWith s ''-'' then - 1 else 1);
               s' = (if startsWith s ''-'' \<or> startsWith s ''+'' then drop 1 s else s)
           in if startsWith s' ''0x'' \<or> startsWith s' ''0X'' then parseDigits 16 sign (drop 2 s')
              else parseDigits 10 sign s'))"

text \<open>\<open>toUpperCase\<close> on the ASCII letters, and the \<open>||\<close> default on an optional count.\<close>

definition toUpperCase :: "string \<Rightarrow> string" where
  "toUpperCase s =
     map (\<lambda>c. if 97 \<le> (of_char c :: nat) \<and> (of_char c :: nat) \<le> 122
              then char_of ((of_char c :: nat) - 32) else c) s"

definition or_default :: "nat option \<Rightarrow> nat \<Rightarrow> nat" where
  "or_default x d = (case x of None \<Rightarrow> d | Some n \<Rightarrow> if n = 0 then d else n)"

subsection \<open>Messages\<close>

text \<open>
  The game as the backend reports it (\<open>game.id\<close>, \<open>status\<close>, \<open>pot\<close>, \<open>playerCount\<close>,
  \<open>availableCards\<close>, \<open>timeLeft\<close>, \<open>calledNumbers\<close>). Amounts of money are JavaScript
  numbers, idealised as reals.

  A message text is one constructor per template literal of the source, with the values
  the template interpolates, in their order; the pictographs and the Markdown escapes of
  the literals, and the rendering of an amount by \<open>toFixed(2)\<close>, belong to the template
  and are not spelled out. A button is its label (without its pictograph) and its
  \<open>callback_data\<close>.

  \<^item> \<open>Current_game\<close>: "Current Game", with the first eight characters of the id, the
    status in upper case, the pot, the players (or 0), the cards available (or 400) and the
    seconds left (or 30); \<open>No_active_games\<close>: "No active games. Starting a new game...";
    \<open>Error_loading_game\<close>: "Error loading game. Please try again." (handlePlayCommand).
  \<^item> \<open>Card_purchased\<close>: "Card Purchased", with the card's number, the new balance and
    the card as text; \<open>Backend_error\<close>: the backend's own error text;
    \<open>Error_purchasing_card\<close>: "Error purchasing card. Please check your balance." (buyCard).
  \<^item> \<open>Bingo_being_verified\<close>: "BINGO! Your win is being verified...";
    \<open>No_winning_pattern\<close>: "No winning pattern found on your cards.";
    \<open>Error_checking_bingo\<close>: "Error checking for bingo." (claimBingo).
  \<^item> \<open>Error_processing_request\<close>: "Error processing request." (callback handler);
    \<open>Main_menu\<close>: the fixed text of showMainMenu, which comes with a reply keyboard and no
    inline button.
  \<^item> \<open>Game_starting\<close>: "Game Starting", the first eight characters of the game id, "Get
    ready! Game starts in 30 seconds."; \<open>Game_starting_get_ready\<close>: the same up to "Get
    ready!" (second bot); \<open>Number_called\<close>: letter and number "called!", "Current calls:"
    and the count; \<open>Number_called_plain\<close>: the same without the letter (second bot);
    \<open>Player_joined\<close>: the user name "joined the game!" and the number of players;
    \<open>Card_sold\<close>: "Card" and its number "sold!", and the pot; \<open>You_won\<close>: "BINGO! YOU
    WON" and the amount, "Congratulations!"; \<open>Opponent_won\<close>: the winner's name "won" and
    the amount, "Better luck next time!"; \<open>Game_ending\<close>: "Game ending in 60 seconds",
    "Last chance to claim bingo!" (sendGameNotification).
\<close>

record game =
  game_id :: string
  status :: string
  pot :: real
  playerCount :: "nat option"
  availableCards :: "nat option"
  timeLeft :: "nat option"
  calledNumbers :: "int list"

datatype msg_text =
    Current_game string string real nat nat nat
  | No_active_games
  | Error_loading_game
  | Card_purchased nat real string
  | Backend_error string
  | Error_purchasing_card
  | Bingo_being_verified
  | No_winning_pattern
  | Error_checking_bingo
  | Error_processing_request
  | Main_menu
  | Game_starting string
  | Game_starting_get_ready string
  | Number_called string int nat
  | Number_called_plain int nat
  | Player_joined string nat
  | Card_sold nat real
  | You_won real
  | Opponent_won string real
  | Game_ending

record button =
  label :: string
  callback_data :: string

record message =
  content :: msg_text
  inline_keyboard :: "button list list"

definition plain :: "msg_text \<Rightarrow> message" where
  "plain t = \<lparr>content = t, inline_keyboard = []\<rparr>"

subsection \<open>The outside world\<close>

text \<open>
  What a handler leaves behind: the messages the Telegram API accepted, the callback
  queries it answered, the \<open>console.error\<close> lines, the HTTP requests sent to the backend,
  and the number of calls made to the outside so far. The outside answers the call number
  \<open>k\<close> as the environment says: whether a Telegram call succeeds, and what each backend
  operation returns or that it fails. A request is its route (\<open>GET /api/games/current\<close>,
  \<open>POST /api/games\<close>, \<open>POST /api/games/<gameId>/buy-card\<close>,
  \<open>POST /api/games/claim-bingo\<close>) with the object passed as its body, before it is
  serialised. The buy-card response is either a success with the card and the new balance
  or a refusal with the backend's error text.
\<close>

record buy_body =
  userId :: string
  cardNumber :: jsval
  telegramChatId :: int

record claim_body =
  claim_userId :: string
  claim_telegramChatId :: int

datatype request =
    Get_games_current
  | Post_games
  | Post_buy_card string buy_body
  | Post_claim_bingo claim_body

datatype buy_result = Bought bingo_card real | Rejected string

record world =
  outbox :: "(int \<times> message) list"
  answered :: "string list"
  errlog :: "(string \<times> err) list"
  requests :: "request list"
  calls :: nat

record env =
  telegram_ok :: "nat \<Rightarrow> bool"
  get_games_current :: "nat \<Rightarrow> err + game option"
  post_games :: "nat \<Rightarrow> err + unit"
  post_buy_card :: "nat \<Rightarrow> err + buy_result"
  post_claim_bingo :: "nat \<Rightarrow> err + bool"

type_synonym 'a io = "world \<Rightarrow> (err + 'a) \<times> world"

definition tick :: "world \<Rightarrow> world" where
  "tick w = w\<lparr>calls := Suc (calls w)\<rparr>"

definition sendMessage :: "env \<Rightarrow> int \<Rightarrow> message \<Rightarrow> unit io" where
  "sendMessage e chatId m w =
     (if telegram_ok e (calls w) then (Inr (), tick (w\<lparr>outbox := outbox w @ [(chatId, m)]\<rparr>))
      else (Inl TelegramError, tick w))"

definition answerCallbackQuery :: "env \<Rightarrow> string \<Rightarrow> unit io" where
  "answerCallbackQuery e qid w =
     (if telegram_ok e (calls w) then (Inr (), tick (w\<lparr>answered := answered w @ [qid]\<rparr>))
      else (Inl TelegramError, tick w))"

definition console_error :: "string \<Rightarrow> err \<Rightarrow> world \<Rightarrow> world" where
  "console_error what e w = w\<lparr>errlog := errlog w @ [(what, e)]\<rparr>"

definition axios :: "(nat \<Rightarrow> err + 'a) \<Rightarrow> request \<Rightarrow> 'a io" where
  "axios answer req w = (answer (calls w), tick (w\<lparr>requests := requests w @ [req]\<rparr>))"


text \<open>\<open>try { body } catch (error) { handler }\<close> around an awaited body.\<close>

definition try_catch :: "unit io \<Rightarrow> (err \<Rightarrow> unit io) \<Rightarrow> unit io" where
  "try_catch body handler w =
     (case body w of (Inl e, w') \<Rightarrow> handler e w' | (Inr u, w') \<Rightarrow> (Inr u, w'))"

definition throw :: "err \<Rightarrow> unit io" where
  "throw e w = (Inl e, w)"

text \<open>\<open>getUserId\<close>: the Telegram chat id, prefixed.\<close>

definition getUserId :: "int \<Rightarrow> string" where
  "getUserId chatId = ''telegram_'' @ toString chatId"

subsection \<open>handlePlayCommand\<close>

definition gameMessage :: "game \<Rightarrow> msg_text" where
  "gameMessage g =
     Current_game (take 8 (game_id g)) (toUpperCase (status g)) (pot g)
       (or_default (playerCount g) 0) (or_default (availableCards g) 400)
       (or_default (timeLeft g) 30)"

definition play_keyboard :: "game \<Rightarrow> button list list" where
  "play_keyboard g =
     (if status g = ''waiting''
      then [[\<lparr>label = ''Select Cards'', callback_data = ''select_card_page_'' @ game_id g @ ''_1''\<rparr>,
             \<lparr>label = ''View Game'', callback_data = ''join_game_'' @ game_id g\<rparr>]]
      else if status g = ''active''
      then [[\<lparr>label = ''View Numbers'', callback_data = ''join_game_'' @ game_id g\<rparr>,
             \<lparr>label = ''Claim Bingo'', callback_data = ''claim_bingo''\<rparr>]]
      else [])
     @ [[\<lparr>label = ''Open Web App'', callback_data = ''view_web_app''\<rparr>]]"

text \<open>The \<open>catch\<close> block of \<open>handlePlayCommand\<close>.\<close>

definition play_catch :: "env \<Rightarrow> int \<Rightarrow> err \<Rightarrow> unit io" where
  "play_catch e chatId x w =
     sendMessage e chatId (plain Error_loading_game) (console_error ''Play command error:'' x w)"

text \<open>
  The play handler of the bot that re-invokes itself: when the backend reports no game, it
  announces a new one, creates it and calls itself again, inside its own \<open>try\<close>. The
  handler may never return, which is the value \<open>None\<close>.
\<close>

partial_function (option) handlePlayCommand ::
  "env \<Rightarrow> int \<Rightarrow> world \<Rightarrow> ((err + unit) \<times> world) option" where
  "handlePlayCommand e chatId w =
     (case axios (get_games_current e) Get_games_current w of
        (Inl x, w1) \<Rightarrow> Some (play_catch e chatId x w1)
      | (Inr (Some g), w1) \<Rightarrow>
          Some (try_catch
                  (sendMessage e chatId \<lparr>content = gameMessage g, inline_keyboard = play_keyboard g\<rparr>)
                  (play_catch e chatId) w1)
      | (Inr None, w1) \<Rightarrow>
          (case sendMessage e chatId (plain No_active_games) w1 of
             (Inl x, w2) \<Rightarrow> Some (play_catch e chatId x w2)
           | (Inr u, w2) \<Rightarrow>
               (case axios (post_games e) Post_games w2 of
                  (Inl x, w3) \<Rightarrow> Some (play_catch e chatId x w3)
                | (Inr newGame, w3) \<Rightarrow>
                    Option.bind (handlePlayCommand e chatId w3)
                      (\<lambda>r. case r of
                             (Inl x, w4) \<Rightarrow> Some (play_catch e chatId x w4)
                           | (Inr u', w4) \<Rightarrow> Some (Inr u', w4)))))"

declare handlePlayCommand.simps [code]

subsection \<open>buyCard and claimBingo\<close>

definition buyCard :: "env \<Rightarrow> int \<Rightarrow> string \<Rightarrow> jsval \<Rightarrow> unit io" where
  "buyCard e chatId gameId cardNumber' =
     try_catch
       (\<lambda>w. case axios (post_buy_card e)
                   (Post_buy_card gameId
                      \<lparr>userId = getUserId chatId,
                       cardNumber = (if cardNumber' = JStr ''random'' then JNull else cardNumber'),
                       telegramChatId = chatId\<rparr>) w of
               (Inl x, w1) \<Rightarrow> (Inl x, w1)
             | (Inr (Bought crd newBalance), w1) \<Rightarrow>
                 (case formatCardAsText crd of
                    Inl x \<Rightarrow> (Inl x, w1)
                  | Inr cardText \<Rightarrow>
                      sendMessage e chatId
                        \<lparr>content = Card_purchased (card_number crd) newBalance cardText,
                         inline_keyboard =
                           [[\<lparr>label = ''Buy Another Card'',
                              callback_data = ''select_card_page_'' @ gameId @ ''_1''\<rparr>],
                            [\<lparr>label = ''View Game'', callback_data = ''join_game_'' @ gameId\<rparr>]]\<rparr> w1)
             | (Inr (Rejected error), w1) \<Rightarrow> sendMessage e chatId (plain (Backend_error error)) w1)
       (\<lambda>x w. sendMessage e chatId (plain Error_purchasing_card) (console_error ''Buy card error:'' x w))"

definition claimBingo :: "env \<Rightarrow> int \<Rightarrow> unit io" where
  "claimBingo e chatId =
     try_catch
       (\<lambda>w. case axios (post_claim_bingo e)
                   (Post_claim_bingo \<lparr>claim_userId = getUserId chatId, claim_telegramChatId = chatId\<rparr>) w of
               (Inl x, w1) \<Rightarrow> (Inl x, w1)
             | (Inr success, w1) \<Rightarrow>
                 if success then sendMessage e chatId (plain Bingo_being_verified) w1
                 else sendMessage e chatId (plain No_winning_pattern) w1)
       (\<lambda>x w. sendMessage e chatId (plain Error_checking_bingo) (console_error ''Claim bingo error:'' x w))"

definition showMainMenu :: "env \<Rightarrow> int \<Rightarrow> unit io" where
  "showMainMenu e chatId = sendMessage e chatId (plain Main_menu)"

subsection \<open>The callback query handler\<close>

text \<open>
  The handler answers the query and dispatches on its data, all inside one \<open>try\<close>; its
  \<open>catch\<close> logs the failure and sends an error message. The class has no method
  \<open>joinGame\<close>, so that branch raises a \<open>TypeError\<close>. Four methods are passed in, so
  that what is proved of the handler holds whatever they do: \<open>openWebApp\<close>, whose message
  carries a web-app button with a URL instead of callback data, and the three methods that
  only read the backend and render what it returns.
\<close>

record callback_query =
  query_id :: string
  query_chatId :: int
  query_data :: string

record methods =
  openWebApp :: "int \<Rightarrow> unit io"
  showCardSelection :: "int \<Rightarrow> string option \<Rightarrow> jsval \<Rightarrow> unit io"
  showBalance :: "int \<Rightarrow> unit io"
  processDeposit :: "int \<Rightarrow> string \<Rightarrow> unit io"

text \<open>A possibly undefined string, interpolated into a template.\<close>

definition interpolate :: "string option \<Rightarrow> string" where
  "interpolate x = (case x of None \<Rightarrow> ''undefined'' | Some s \<Rightarrow> s)"

definition callback_try :: "methods \<Rightarrow> env \<Rightarrow> callback_query \<Rightarrow> unit io" where
  "callback_try ms e q w =
     (case answerCallbackQuery e (query_id q) w of
        (Inl x, w1) \<Rightarrow> (Inl x, w1)
      | (Inr u, w1) \<Rightarrow>
          (let chatId = query_chatId q; data = query_data q in
           if startsWith data ''join_game_'' then
             (let gameId = replaceFirst data ''join_game_'' '''' in throw TypeError w1)
           else if startsWith data ''buy_card_'' then
             (let parts = split (CHR ''_'') data;
                  gameId = element parts 1; cardNumber' = element parts 2
              in buyCard e chatId (interpolate gameId) (parseInt cardNumber') w1)
           else if startsWith data ''select_card_page_'' then
             (let parts = drop 2 (split (CHR ''_'') data);
                  gameId = element parts 1; page = element parts 2
              in showCardSelection ms chatId gameId (parseInt page) w1)
           else if data = ''view_web_app'' then openWebApp ms chatId w1
           else if data = ''view_balance'' then showBalance ms chatId w1
           else if startsWith data ''deposit_'' then
             processDeposit ms chatId (replaceFirst data ''deposit_'' '''') w1
           else if data = ''claim_bingo'' then claimBingo e chatId w1
           else if data = ''main_menu'' then showMainMenu e chatId w1
           else (Inr (), w1)))"

definition callback_query_handler :: "methods \<Rightarrow> env \<Rightarrow> callback_query \<Rightarrow> unit io" where
  "callback_query_handler ms e q =
     try_catch (callback_try ms e q)
       (\<lambda>x w. sendMessage e (query_chatId q) (plain Error_processing_request)
                 (console_error ''Callback error:'' x w))"

subsection \<open>Game notifications\<close>

text \<open>
  The notification of the first bot: its \<open>type\<close> with the fields of \<open>data\<close> that the
  matching \<open>case\<close> reads (\<open>number_called\<close>: letter, number, currentCalls; \<open>player_joined\<close>:
  username, totalPlayers; \<open>card_sold\<close>: cardNumber, pot; \<open>winner\<close>: userId, username,
  amount). Any other type leaves the message empty, and nothing is sent.
\<close>

datatype notification =
    Notify_game_starting
  | Notify_number_called string int nat
  | Notify_player_joined string nat
  | Notify_card_sold nat real
  | Notify_winner string string real
  | Notify_game_ending
  | Notify_other string

fun notification_message :: "int \<Rightarrow> string \<Rightarrow> notification \<Rightarrow> message option" where
  "notification_message chatId gameId Notify_game_starting =
     Some \<lparr>content = Game_starting (take 8 gameId),
           inline_keyboard = [[\<lparr>label = ''Buy Cards'', callback_data = ''select_card_page_'' @ gameId @ ''_1''\<rparr>]]\<rparr>"
| "notification_message chatId gameId (Notify_number_called l n currentCalls) =
     Some \<lparr>content = Number_called l n currentCalls,
           inline_keyboard = [[\<lparr>label = ''View Game'', callback_data = ''join_game_'' @ gameId\<rparr>]]\<rparr>"
| "notification_message chatId gameId (Notify_player_joined username totalPlayers) =
     Some (plain (Player_joined username totalPlayers))"
| "notification_message chatId gameId (Notify_card_sold cardNo p) =
     Some (plain (Card_sold cardNo p))"
| "notification_message chatId gameId (Notify_winner uid username amount) =
     Some \<lparr>content = (if uid = getUserId chatId then You_won amount else Opponent_won username amount),
           inline_keyboard = [[\<lparr>label = ''Play Again'', callback_data = ''main_menu''\<rparr>]]\<rparr>"
| "notification_message chatId gameId Notify_game_ending =
     Some \<lparr>content = Game_ending,
           inline_keyboard = [[\<lparr>label = ''Claim Bingo'', callback_data = ''claim_bingo''\<rparr>]]\<rparr>"
| "notification_message chatId gameId (Notify_other t) = None"

definition sendGameNotification :: "env \<Rightarrow> int \<Rightarrow> string \<Rightarrow> notification \<Rightarrow> unit io" where
  "sendGameNotification e chatId gameId n =
     try_catch
       (\<lambda>w. case notification_message chatId gameId n of
               None \<Rightarrow> (Inr (), w)
             | Some m \<Rightarrow> sendMessage e chatId m w)
       (\<lambda>x w. (Inr (), console_error ''Notification error:'' x w))"

subsection \<open>The second bot\<close>

text \<open>
  The second bot keeps a session per chat (\<open>userSessions\<close>), filled by \<open>/start\<close>. Its
  notification carries \<open>type\<close> and, for a winner, the fields \<open>isWinner\<close>, \<open>winnerName\<close>
  and \<open>amount\<close> that the handler reads; the winner's \<open>userId\<close> of the event contract is
  carried along, and the handler does not read it.
\<close>

record session =
  session_userId :: string
  session_username :: string
  session_balance :: real

datatype notification2 =
    Notify2_game_starting string
  | Notify2_number_called int nat
  | Notify2_winner bool string real string
  | Notify2_other string

fun notification_message2 :: "notification2 \<Rightarrow> message option" where
  "notification_message2 (Notify2_game_starting gameId) =
     Some \<lparr>content = Game_starting_get_ready (take 8 gameId),
           inline_keyboard = [[\<lparr>label = ''Buy Cards'', callback_data = ''select_cards_'' @ gameId\<rparr>]]\<rparr>"
| "notification_message2 (Notify2_number_called n currentCalls) =
     Some (plain (Number_called_plain n currentCalls))"
| "notification_message2 (Notify2_winner isWinner winnerName amount uid) =
     Some (plain (if isWinner then You_won amount else Opponent_won winnerName amount))"
| "notification_message2 (Notify2_other t) = None"

definition sendGameNotification2 ::
  "(int \<rightharpoonup> session) \<Rightarrow> env \<Rightarrow> int \<Rightarrow> notification2 \<Rightarrow> unit io" where
  "sendGameNotification2 userSessions e chatId n =
     try_catch
       (\<lambda>w. case notification_message2 n of
               None \<Rightarrow> (Inr (), w)
             | Some m \<Rightarrow> sendMessage e chatId m w)
       (\<lambda>x w. (Inr (), console_error ''Notification error:'' x w))"



section \<open>The web client\<close>

subsection \<open>The socket context\<close>

text \<open>
  The provider's state: the socket (\<open>null\<close> until the effect has created it), the
  connection flag, the count of failed connection attempts, and the console's warnings.
  A socket is the list of the \<open>emit\<close> calls it received; what the socket library does
  with a call is outside this model.
\<close>

record 'd socket_io =
  emitted :: "(string \<times> 'd) list"

record 'd provider =
  socket :: "'d socket_io option"
  isConnected :: bool
  reconnectAttempts :: nat
  warnings :: "string list"

definition emit :: "string \<Rightarrow> 'd \<Rightarrow> 'd provider \<Rightarrow> (err + unit) \<times> 'd provider" where
  "emit event data st =
     (case socket st of
        Some s \<Rightarrow>
          if isConnected st
          then (Inr (), st\<lparr>socket := Some (s\<lparr>emitted := emitted s @ [(event, data)]\<rparr>)\<rparr>)
          else (Inr (), st\<lparr>warnings := warnings st @ [''Socket not connected'']\<rparr>)
      | None \<Rightarrow> (Inr (), st\<lparr>warnings := warnings st @ [''Socket not connected'']\<rparr>))"

subsection \<open>The game room\<close>

text \<open>
  The state of the game room component and its handlers of the \<open>gameState\<close> and
  \<open>numberCalled\<close> socket events. The cards' marks are drawn from the cards and from
  \<open>gameState.calledNumbers\<close>. A \<open>numberCalled\<close> event carries the letter, the number
  and the count of calls so far; the handler reads the number.
\<close>

datatype toast = Toast_success string

record room =
  gameState :: "game option"
  myCards :: "bingo_card list"
  selectedCard :: "bingo_card option"
  room_timeLeft :: nat
  toasts :: "toast list"

record number_called =
  called_letter :: string
  called_number :: int
  currentCalls :: nat

definition on_gameState :: "game \<Rightarrow> room \<Rightarrow> room" where
  "on_gameState state r = r\<lparr>gameState := Some state, room_timeLeft := or_default (timeLeft state) 0\<rparr>"

definition on_numberCalled :: "number_called \<Rightarrow> room \<Rightarrow> room" where
  "on_numberCalled data r =
     r\<lparr>toasts := toasts r @ [Toast_success (''Number called: '' @ toString (called_number data))]\<rparr>"


section \<open>Example inputs\<close>

subsection \<open>Example cards\<close>

text \<open>
  A column assignment whose middle row is B7, I19, (free), G50, O71, the card built from it,
  that card after the calls B7, I19, N33, G50, O71, and a card with all 25 cells called.
\<close>

definition exampleRanges :: "nat \<Rightarrow> nat \<Rightarrow> int" where
  "exampleRanges col row =
     (if col < 5 \<and> row < 5
      then [[1, 2, 7, 4, 5], [16, 17, 19, 20, 21], [31, 32, 33, 34, 35],
            [46, 47, 50, 48, 49], [61, 62, 71, 63, 64]] ! col ! row
      else 0)"

definition exampleCard :: bingo_card where
  "exampleCard = buildCard 17 exampleRanges"

definition calledCard :: bingo_card where
  "calledCard =
     applyCalledNumber (applyCalledNumber (applyCalledNumber (applyCalledNumber
       (applyCalledNumber exampleCard Letter_B 7) Letter_I 19) Letter_N 33) Letter_G 50) Letter_O 71"

definition fullCard :: bingo_card where
  "fullCard = exampleCard\<lparr>numbers := map (map (\<lambda>cell. cell\<lparr>called := True\<rparr>)) (numbers exampleCard)\<rparr>"

subsection \<open>Example worlds and environments\<close>

text \<open>
  An empty world. A backend that never has a game and creates one without failing, with a
  Telegram API that never fails; the same backend reporting a game from the seventh call
  to the outside on; a backend that is down, behind a Telegram API that works; a backend
  that answers, behind a Telegram API that fails its second call only; a backend that
  sells the example card. Stand-ins
  for the four methods the callback handler is given. A session store of the second bot,
  a provider without a socket and one with a connected socket, and a game room.
\<close>

definition world0 :: world where
  "world0 = \<lparr>outbox = [], answered = [], errlog = [], requests = [], calls = 0\<rparr>"

definition never_game :: env where
  "never_game =
     \<lparr>telegram_ok = (\<lambda>k. True), get_games_current = (\<lambda>k. Inr None), post_games = (\<lambda>k. Inr ()),
      post_buy_card = (\<lambda>k. Inl HttpError), post_claim_bingo = (\<lambda>k. Inl HttpError)\<rparr>"

definition game0 :: game where
  "game0 =
     \<lparr>game_id = ''3f2a9c10-77aa'', status = ''waiting'', pot = 120, playerCount = Some 3,
      availableCards = Some 0, timeLeft = None, calledNumbers = []\<rparr>"

definition third_time :: env where
  "third_time =
     never_game\<lparr>get_games_current := (\<lambda>k. if k < 6 then Inr None else Inr (Some game0))\<rparr>"

definition backend_down :: env where
  "backend_down =
     \<lparr>telegram_ok = (\<lambda>k. True), get_games_current = (\<lambda>k. Inl HttpError),
      post_games = (\<lambda>k. Inl HttpError), post_buy_card = (\<lambda>k. Inl HttpError),
      post_claim_bingo = (\<lambda>k. Inl HttpError)\<rparr>"


definition selling :: env where
  "selling = backend_down\<lparr>post_buy_card := (\<lambda>k. Inr (Bought exampleCard 90))\<rparr>"

definition failing_methods :: methods where
  "failing_methods =
     \<lparr>openWebApp = (\<lambda>chatId. throw TelegramError),
      showCardSelection = (\<lambda>chatId gameId page. throw HttpError),
      showBalance = (\<lambda>chatId. throw HttpError),
      processDeposit = (\<lambda>chatId amount. throw HttpError)\<rparr>"

definition sessions0 :: "int \<rightharpoonup> session" where
  "sessions0 = [42 \<mapsto> \<lparr>session_userId = ''u1'', session_username = ''abebe'', session_balance = 100\<rparr>]"

definition offline :: "int provider" where
  "offline = \<lparr>socket = None, isConnected = False, reconnectAttempts = 0, warnings = []\<rparr>"

definition online :: "int provider" where
  "online = \<lparr>socket = Some \<lparr>emitted = []\<rparr>, isConnected = True, reconnectAttempts = 0, warnings = []\<rparr>"

definition room0 :: room where
  "room0 =
     \<lparr>gameState = Some game0, myCards = [calledCard], selectedCard = None, room_timeLeft = 30,
      toasts = []\<rparr>"


section \<open>Properties\<close>

subsection \<open>Helper facts\<close>

lemma upt5: "[0..<5] = [0, 1, 2, 3, 4::nat]"
  by code_simp

lemma all5: "(\<forall>i<5::nat. P i) = (P 0 \<and> P 1 \<and> P 2 \<and> P 3 \<and> P 4)"
proof -
  have "\<And>i::nat. (i < 5) = (i = 0 \<or> i = 1 \<or> i = 2 \<or> i = 3 \<or> i = 4)" by arith
  then show ?thesis by auto
qed

lemma ex5: "(\<exists>i<5::nat. P i) = (P 0 \<or> P 1 \<or> P 2 \<or> P 3 \<or> P 4)"
  using all5[of "\<lambda>i. \<not> P i"] by blast

lemma cellAt_buildCard:
  "cellAt (buildCard n cr) r c = (if r < 5 \<and> c < 5 then Some (buildCell cr r c) else None)"
  by (simp add: cellAt_def buildCard_def)

lemma isCalled_buildCard: "isCalled (buildCard n cr) r c = (r = 2 \<and> c = 2)"
  by (auto simp add: isCalled_def cellAt_buildCard buildCell_def)

lemma markCell_idem: "markCell l n (markCell l n cell) = markCell l n cell"
  by (simp add: markCell_def)

lemma markCell_eq:
  "markCell l n cell =
     cell\<lparr>called := called cell \<or> (\<not> free cell \<and> letter cell = l \<and> number cell = Some n)\<rparr>"
  by (cases cell) (auto simp add: markCell_def)

lemma cellAt_applyCalledNumber:
  "cellAt (applyCalledNumber crd l n) row col = map_option (markCell l n) (cellAt crd row col)"
  by (simp add: cellAt_def applyCalledNumber_def)

lemma isCalled_applyCalledNumber:
  "isCalled (applyCalledNumber crd l n) row col =
     (case cellAt crd row col of None \<Rightarrow> False
      | Some cell \<Rightarrow> called cell \<or> (\<not> free cell \<and> letter cell = l \<and> number cell = Some n))"
  by (simp add: isCalled_def cellAt_applyCalledNumber markCell_eq split: option.splits)

subsection \<open>Win detection\<close>

lemma isComplete_Row: "isComplete crd (Row r) = (\<forall>c<5. isCalled crd r c)"
  by (simp add: isComplete_def upt5 all5)

lemma isComplete_Column: "isComplete crd (Column c) = (\<forall>r<5. isCalled crd r c)"
  by (simp add: isComplete_def upt5 all5)

lemma isComplete_Diagonal: "isComplete crd Diagonal = (\<forall>i<5. isCalled crd i i)"
  by (simp add: isComplete_def upt5 all5)

lemma isComplete_AntiDiagonal: "isComplete crd AntiDiagonal = (\<forall>i<5. isCalled crd i (4 - i))"
  by (simp add: isComplete_def upt5 all5)

lemma detectWin_Some_iff: "(detectWin crd \<noteq> None) = (\<exists>p\<in>set allPatterns. isComplete crd p)"
  by (auto simp add: detectWin_def find_None_iff)

lemma set_allPatterns:
  "set allPatterns = Row ` {..<5} \<union> Column ` {..<5} \<union> {Diagonal, AntiDiagonal}"
  by (auto simp add: allPatterns_def)

lemma detectWin_patterns:
  "(detectWin crd \<noteq> None) =
     ((\<exists>r<5. \<forall>c<5. isCalled crd r c) \<or> (\<exists>c<5. \<forall>r<5. isCalled crd r c)
      \<or> (\<forall>i<5. isCalled crd i i) \<or> (\<forall>i<5. isCalled crd i (4 - i)))"
proof -
  have "(\<exists>p\<in>set allPatterns. isComplete crd p) =
      ((\<exists>r<5. isComplete crd (Row r)) \<or> (\<exists>c<5. isComplete crd (Column c))
        \<or> isComplete crd Diagonal \<or> isComplete crd AntiDiagonal)"
    unfolding set_allPatterns by blast
  then show ?thesis
    unfolding detectWin_Some_iff isComplete_Row isComplete_Column
      isComplete_Diagonal isComplete_AntiDiagonal .
qed

text \<open>
  Claim C1. The win detector reports a win exactly when one of the five rows, one of the
  five columns or one of the two full diagonals has all five cells called; a freshly built
  card, where only the free centre is marked, never wins.
\<close>

theorem detectWin_iff_pattern_complete:
  "((detectWin crd \<noteq> None) =
      ((\<exists>r<5. \<forall>c<5. isCalled crd r c) \<or> (\<exists>c<5. \<forall>r<5. isCalled crd r c)
       \<or> (\<forall>i<5. isCalled crd i i) \<or> (\<forall>i<5. isCalled crd i (4 - i))))
   \<and> detectWin (buildCard n columnRanges) = None"
proof -
  have "\<not> (detectWin (buildCard n columnRanges) \<noteq> None)"
    unfolding detectWin_patterns by (simp add: isCalled_buildCard all5 ex5)
  then have "detectWin (buildCard n columnRanges) = None" by simp
  with detectWin_patterns[of crd] show ?thesis by blast
qed

theorem detectWin_iff_pattern_complete_witness:
  "detectWin calledCard = Some (Row 2)
   \<and> ((\<exists>r<5. \<forall>c<5. isCalled calledCard r c) \<or> (\<exists>c<5. \<forall>r<5. isCalled calledCard r c)
       \<or> (\<forall>i<5. isCalled calledCard i i) \<or> (\<forall>i<5. isCalled calledCard i (4 - i)))
   \<and> detectWin exampleCard = None"
proof -
  have a: "detectWin calledCard = Some (Row 2)" by code_simp
  then have b: "detectWin calledCard \<noteq> None" by simp
  show ?thesis
    using a b detectWin_iff_pattern_complete[of calledCard 17 exampleRanges]
    unfolding exampleCard_def by blast
qed

subsection \<open>Marking\<close>

text \<open>
  Claim C2. Applying the same call twice gives the same card as applying it once, and one
  application changes nothing but the called flag, which it sets on exactly the non-free
  cells that carry the called letter and number.
\<close>

theorem applyCalledNumber_idempotent:
  "applyCalledNumber (applyCalledNumber crd l n) l n = applyCalledNumber crd l n
   \<and> card_number (applyCalledNumber crd l n) = card_number crd
   \<and> (\<forall>row col. cellAt (applyCalledNumber crd l n) row col =
         map_option
           (\<lambda>cell. cell\<lparr>called := called cell \<or> (\<not> free cell \<and> letter cell = l \<and> number cell = Some n)\<rparr>)
           (cellAt crd row col))"
proof -
  have "map (map (markCell l n)) (map (map (markCell l n)) (numbers crd)) =
      map (map (markCell l n)) (numbers crd)"
    by (simp add: comp_def markCell_idem)
  then have a: "applyCalledNumber (applyCalledNumber crd l n) l n = applyCalledNumber crd l n"
    by (simp add: applyCalledNumber_def)
  have b: "card_number (applyCalledNumber crd l n) = card_number crd"
    by (simp add: applyCalledNumber_def)
  have "markCell l n =
      (\<lambda>cell. cell\<lparr>called := called cell \<or> (\<not> free cell \<and> letter cell = l \<and> number cell = Some n)\<rparr>)"
    by (rule ext) (rule markCell_eq)
  then have c: "\<forall>row col. cellAt (applyCalledNumber crd l n) row col =
        map_option
          (\<lambda>cell. cell\<lparr>called := called cell \<or> (\<not> free cell \<and> letter cell = l \<and> number cell = Some n)\<rparr>)
          (cellAt crd row col)"
    using cellAt_applyCalledNumber by simp
  from a b c show ?thesis by blast
qed

theorem applyCalledNumber_idempotent_witness:
  "applyCalledNumber (applyCalledNumber exampleCard Letter_B 7) Letter_B 7 =
     applyCalledNumber exampleCard Letter_B 7
   \<and> cellAt exampleCard 2 0 = Some \<lparr>letter = Letter_B, number = Some 7, free = False, called = False\<rparr>
   \<and> cellAt (applyCalledNumber exampleCard Letter_B 7) 2 0 =
       Some \<lparr>letter = Letter_B, number = Some 7, free = False, called = True\<rparr>"
proof -
  have a: "cellAt exampleCard 2 0 = Some \<lparr>letter = Letter_B, number = Some 7, free = False, called = False\<rparr>"
    by code_simp
  show ?thesis
    using a applyCalledNumber_idempotent[of exampleCard Letter_B 7] by simp
qed

subsection \<open>The free centre and the card formatter\<close>

lemma formatCells_Inr:
  "(\<And>col. col \<in> set cols \<Longrightarrow>
      \<exists>cell. cellAt crd row col = Some cell \<and> (free cell \<or> number cell \<noteq> None))
   \<Longrightarrow> \<exists>t. formatCells crd row cols acc = Inr t"
proof (induction cols arbitrary: acc)
  case Nil
  then show ?case by simp
next
  case (Cons col cols)
  from Cons.prems[of col] obtain cell where
    c: "cellAt crd row col = Some cell" "free cell \<or> number cell \<noteq> None" by auto
  have ih: "\<And>t. \<exists>t'. formatCells crd row cols t = Inr t'"
    using Cons.prems by (intro Cons.IH) auto
  show ?case using c ih by (cases "number cell") auto
qed

lemma formatRows_Inr:
  "(\<And>row col. row \<in> set rows \<Longrightarrow> col < 5 \<Longrightarrow>
      \<exists>cell. cellAt crd row col = Some cell \<and> (free cell \<or> number cell \<noteq> None))
   \<Longrightarrow> \<exists>t. formatRows crd rows acc = Inr t"
proof (induction rows arbitrary: acc)
  case Nil
  then show ?case by simp
next
  case (Cons row rows)
  have "\<exists>t. formatCells crd row [0..<5] (toString (int row + 1) @ '' |'') = Inr t"
    using Cons.prems by (intro formatCells_Inr) auto
  then obtain t where t: "formatCells crd row [0..<5] (toString (int row + 1) @ '' |'') = Inr t" ..
  have "\<exists>t'. formatRows crd rows (acc @ t @ newline) = Inr t'"
    using Cons.prems by (intro Cons.IH) auto
  with t show ?case by simp
qed

lemma formatCardAsText_Inr:
  assumes "\<And>row col. row < 5 \<Longrightarrow> col < 5 \<Longrightarrow>
      \<exists>cell. cellAt crd row col = Some cell \<and> (free cell \<or> number cell \<noteq> None)"
  shows "\<exists>t. formatCardAsText crd = Inr t"
  unfolding formatCardAsText_def using assms by (intro formatRows_Inr) auto

text \<open>
  The formatter does rely on the number: a non-free cell without one makes it raise.
\<close>

lemma formatCardAsText_number_absent:
  "formatCardAsText
     (exampleCard\<lparr>numbers := map (map (\<lambda>cell. cell\<lparr>number := None\<rparr>)) (numbers exampleCard)\<rparr>)
   = Inl TypeError"
  by code_simp

text \<open>
  Claim C3. In every constructed card the centre cell (row 2, column 2) is free and called,
  it is the only free cell among the 25, a cell carries no number exactly when it is free,
  and so the card formatter, which prints FREE for a free cell and otherwise reads the
  number unconditionally, returns a text for it.
\<close>

theorem buildCard_free_centre:
  "cellAt (buildCard n columnRanges) 2 2 =
     Some \<lparr>letter = Letter_N, number = None, free = True, called = True\<rparr>
   \<and> (\<forall>row col. (cellAt (buildCard n columnRanges) row col \<noteq> None) = (row < 5 \<and> col < 5))
   \<and> (\<forall>row col cell. cellAt (buildCard n columnRanges) row col = Some cell \<longrightarrow>
         (free cell = (row = 2 \<and> col = 2)) \<and> ((number cell = None) = free cell))
   \<and> (\<exists>t. formatCardAsText (buildCard n columnRanges) = Inr t)"
proof -
  have a: "cellAt (buildCard n columnRanges) 2 2 =
      Some \<lparr>letter = Letter_N, number = None, free = True, called = True\<rparr>"
    by (simp add: cellAt_buildCard buildCell_def columnLetter_def)
  have b: "\<forall>row col. (cellAt (buildCard n columnRanges) row col \<noteq> None) = (row < 5 \<and> col < 5)"
    by (simp add: cellAt_buildCard)
  have c: "\<forall>row col cell. cellAt (buildCard n columnRanges) row col = Some cell \<longrightarrow>
         (free cell = (row = 2 \<and> col = 2)) \<and> ((number cell = None) = free cell)"
    by (auto simp add: cellAt_buildCard buildCell_def split: if_splits)
  have d: "\<exists>t. formatCardAsText (buildCard n columnRanges) = Inr t"
    by (rule formatCardAsText_Inr) (simp add: cellAt_buildCard buildCell_def)
  from a b c d show ?thesis by blast
qed

theorem buildCard_free_centre_witness:
  "cellAt (buildCard 17 exampleRanges) 4 3 =
     Some \<lparr>letter = Letter_G, number = Some 49, free = False, called = False\<rparr>
   \<and> (free \<lparr>letter = Letter_G, number = Some 49, free = False, called = False\<rparr> = ((4::nat) = 2 \<and> (3::nat) = 2))
   \<and> ((number \<lparr>letter = Letter_G, number = Some 49, free = False, called = False\<rparr> = None) =
        free \<lparr>letter = Letter_G, number = Some 49, free = False, called = False\<rparr>)
   \<and> cellAt (buildCard 17 exampleRanges) 2 2 =
       Some \<lparr>letter = Letter_N, number = None, free = True, called = True\<rparr>"
proof -
  have a: "cellAt (buildCard 17 exampleRanges) 4 3 =
      Some \<lparr>letter = Letter_G, number = Some 49, free = False, called = False\<rparr>"
    by code_simp
  show ?thesis
    using a buildCard_free_centre[of 17 exampleRanges] by blast
qed

subsection \<open>Marked count\<close>

lemma length_filter_concat:
  "length (filter P (concat rows)) =
     (\<Sum>r<length rows. card {c. c < length (rows ! r) \<and> P (rows ! r ! c)})"
proof -
  have "length (filter P (concat rows)) = sum_list (map (\<lambda>row. length (filter P row)) rows)"
    by (induction rows) auto
  also have "\<dots> = (\<Sum>r<length rows. length (filter P (rows ! r)))"
    by (simp add: sum_list_sum_nth atLeast0LessThan)
  also have "\<dots> = (\<Sum>r<length rows. card {c. c < length (rows ! r) \<and> P (rows ! r ! c)})"
    by (simp add: length_filter_conv_card)
  finally show ?thesis .
qed

lemma isCalled_positions:
  "{(row, col). isCalled crd row col} =
     (SIGMA r:{..<length (numbers crd)}.
        {c. c < length (numbers crd ! r) \<and> called (numbers crd ! r ! c)})"
  by (auto simp add: isCalled_def cellAt_def split: if_splits)

lemma marked_eq_card: "showUserCards_marked crd = card {(row, col). isCalled crd row col}"
  unfolding isCalled_positions showUserCards_marked_def flat_def length_filter_concat
  by (subst card_SigmaI) auto

lemma marked_all_called:
  assumes "length (numbers crd) = 5"
    and "\<forall>row\<in>set (numbers crd). length row = 5 \<and> (\<forall>cell\<in>set row. called cell)"
  shows "showUserCards_marked crd = 25"
proof -
  have "\<And>r. r < 5 \<Longrightarrow> {c. c < length (numbers crd ! r) \<and> called (numbers crd ! r ! c)} = {..<5}"
    using assms by (auto simp add: all_set_conv_all_nth)
  then show ?thesis
    unfolding showUserCards_marked_def flat_def length_filter_concat using assms(1) by simp
qed

text \<open>
  Claim C8. The marked count of both clients is the number of grid positions whose cell is
  called, the free centre counted like any other called cell; on a 5 by 5 grid with every
  cell called it is 25.
\<close>

theorem marked_counts_called_cells:
  "showUserCards_marked crd = card {(row, col). isCalled crd row col}
   \<and> GameRoom_marked crd = card {(row, col). isCalled crd row col}
   \<and> (length (numbers crd) = 5
        \<and> (\<forall>row\<in>set (numbers crd). length row = 5 \<and> (\<forall>cell\<in>set row. called cell))
      \<longrightarrow> showUserCards_marked crd = 25 \<and> GameRoom_marked crd = 25)"
proof -
  have "GameRoom_marked crd = showUserCards_marked crd"
    by (simp add: GameRoom_marked_def showUserCards_marked_def)
  then show ?thesis
    using marked_eq_card[of crd] marked_all_called[of crd] by simp
qed

theorem marked_counts_called_cells_witness:
  "length (numbers fullCard) = 5
   \<and> list_all (\<lambda>row. length row = 5 \<and> list_all called row) (numbers fullCard)
   \<and> showUserCards_marked fullCard = 25 \<and> GameRoom_marked fullCard = 25
   \<and> showUserCards_marked exampleCard = 1 \<and> isCalled exampleCard 2 2"
proof -
  have a: "length (numbers fullCard) = 5" by code_simp
  have b: "list_all (\<lambda>row. length row = 5 \<and> list_all called row) (numbers fullCard)"
    by code_simp
  then have b': "\<forall>row\<in>set (numbers fullCard). length row = 5 \<and> (\<forall>cell\<in>set row. called cell)"
    by (simp add: list_all_iff)
  have c: "showUserCards_marked exampleCard = 1" by code_simp
  have d: "isCalled exampleCard 2 2" by code_simp
  show ?thesis
    using a b b' c d marked_counts_called_cells[of fullCard] by blast
qed

subsection \<open>Buying a card\<close>

lemma getUserId_42: "getUserId 42 = ''telegram_42''"
  by code_simp

text \<open>
  Taken alone, buyCard sends exactly one buy-card request, whatever the backend answers, for
  the game it is given; the body carries the user id of the chat and the chat id, and as
  card number \<open>null\<close> when its argument is the string \<open>'random'\<close> and the argument itself
  otherwise.
\<close>

lemma buyCard_request_body:
  "requests (snd (buyCard e chatId gameId selection w)) =
     requests w @
       [Post_buy_card gameId
          \<lparr>userId = getUserId chatId,
           cardNumber = (if selection = JStr ''random'' then JNull else selection),
           telegramChatId = chatId\<rparr>]"
  by (simp add: buyCard_def try_catch_def axios_def sendMessage_def console_error_def tick_def
      split: prod.splits sum.splits buy_result.splits)

text \<open>
  Its only caller never passes that string: \<open>parseInt\<close> yields a number or \<open>NaN\<close>, neither
  a string nor \<open>null\<close>.
\<close>

lemma parseInt_not_string: "parseInt a \<noteq> JStr t \<and> parseInt a \<noteq> JNull"
  by (simp add: parseInt_def parseDigits_def Let_def split: option.splits)

text \<open>
  Claim C9. The claim asks that the buy-card request carry the card number \<open>null\<close> exactly
  when the user selected the random option, and the chosen number otherwise. It does not:
  the callback handler takes the second and third part of the split callback data for the
  game and the card where they are the third and the fourth, and passes the card through
  \<open>parseInt\<close>. The random button and the button of card 17 of game \<open>g1\<close> both ask a game
  called \<open>card\<close> for the card number \<open>NaN\<close>; the button of card 17 of game
  \<open>3f2a9c10-77aa\<close> asks it for card 3.
\<close>

theorem callback_buy_card_requests:
  "requests (snd (callback_query_handler failing_methods selling
      \<lparr>query_id = ''q1'', query_chatId = 42, query_data = ''buy_card_g1_random''\<rparr> world0)) =
     [Post_buy_card ''card'' \<lparr>userId = ''telegram_42'', cardNumber = JNaN, telegramChatId = 42\<rparr>]
   \<and> requests (snd (callback_query_handler failing_methods selling
      \<lparr>query_id = ''q2'', query_chatId = 42, query_data = ''buy_card_g1_17''\<rparr> world0)) =
     [Post_buy_card ''card'' \<lparr>userId = ''telegram_42'', cardNumber = JNaN, telegramChatId = 42\<rparr>]
   \<and> requests (snd (callback_query_handler failing_methods selling
      \<lparr>query_id = ''q3'', query_chatId = 42, query_data = ''buy_card_3f2a9c10-77aa_17''\<rparr> world0)) =
     [Post_buy_card ''card'' \<lparr>userId = ''telegram_42'', cardNumber = JNum 3, telegramChatId = 42\<rparr>]"
proof (intro conjI)
  show "requests (snd (callback_query_handler failing_methods selling
      \<lparr>query_id = ''q1'', query_chatId = 42, query_data = ''buy_card_g1_random''\<rparr> world0)) =
     [Post_buy_card ''card'' \<lparr>userId = ''telegram_42'', cardNumber = JNaN, telegramChatId = 42\<rparr>]"
    by code_simp
next
  show "requests (snd (callback_query_handler failing_methods selling
      \<lparr>query_id = ''q2'', query_chatId = 42, query_data = ''buy_card_g1_17''\<rparr> world0)) =
     [Post_buy_card ''card'' \<lparr>userId = ''telegram_42'', cardNumber = JNaN, telegramChatId = 42\<rparr>]"
    by code_simp
next
  show "requests (snd (callback_query_handler failing_methods selling
      \<lparr>query_id = ''q3'', query_chatId = 42, query_data = ''buy_card_3f2a9c10-77aa_17''\<rparr> world0)) =
     [Post_buy_card ''card'' \<lparr>userId = ''telegram_42'', cardNumber = JNum 3, telegramChatId = 42\<rparr>]"
    by code_simp
qed

subsection \<open>The play handler\<close>

lemma handlePlayCommand_needs_game:
  assumes "handlePlayCommand e chatId w = Some r"
  shows "e \<noteq> never_game"
proof (rule handlePlayCommand.raw_induct[where P = "\<lambda>e chatId w r. e \<noteq> never_game", OF _ assms],
    goal_cases)
  case (1 hp e chatId w r)
  show ?case
  proof
    assume e: "e = never_game"
    from 1(2) have "\<exists>w3 k. Option.bind (hp e chatId w3) k = Some r"
      unfolding e by (simp add: axios_def sendMessage_def never_game_def) (intro exI, assumption)
    then obtain w3 r' where "hp e chatId w3 = Some r'"
      by (auto simp add: Option.bind_eq_Some_conv)
    from 1(1)[OF this] e show False by simp
  qed
qed

text \<open>The handler does return once the backend reports a game, here at the third attempt.\<close>

lemma handlePlayCommand_third_time:
  "map_option (\<lambda>r. (fst r, map (content \<circ> snd) (outbox (snd r)), requests (snd r)))
     (handlePlayCommand third_time 42 world0) =
   Some (Inr (),
         [No_active_games, No_active_games, Current_game ''3f2a9c10'' ''WAITING'' 120 3 400 30],
         [Get_games_current, Post_games, Get_games_current, Post_games, Get_games_current])"
  by code_simp

text \<open>
  Claim C6. The claim asks that the play handler return for every sequence of backend
  answers. It does not: against a backend that never reports a game and creates one without
  failing, with every message delivered, the handler never returns.
\<close>

theorem handlePlayCommand_never_returns:
  "handlePlayCommand never_game chatId w = None"
proof (cases "handlePlayCommand never_game chatId w")
  case None
  then show ?thesis .
next
  case (Some r)
  from handlePlayCommand_needs_game[OF this] show ?thesis by simp
qed

subsection \<open>Failures inside the handlers\<close>

lemma handlePlayCommand_reliable:
  assumes ret: "handlePlayCommand e chatId w = Some r" and ok: "\<forall>k. telegram_ok e k"
  shows "fst r = Inr ()"
proof -
  have pc: "\<And>x w'. fst (play_catch e chatId x w') = Inr ()"
    using ok by (simp add: play_catch_def sendMessage_def)
  have tc: "\<And>m w'. fst (try_catch (sendMessage e chatId m) (play_catch e chatId) w') = Inr ()"
    using ok by (simp add: try_catch_def sendMessage_def)
  have k: "\<And>r' :: (err + unit) \<times> world.
      (case r' of (Inl x, w4) \<Rightarrow> Some (play_catch e chatId x w4)
       | (Inr u', w4) \<Rightarrow> Some (Inr u', w4)) = Some r
      \<Longrightarrow> fst r = Inr ()"
    using pc by (auto split: prod.splits sum.splits)
  obtain a w1 where a: "axios (get_games_current e) Get_games_current w = (a, w1)"
    by (cases "axios (get_games_current e) Get_games_current w")
  obtain b w2 where b: "sendMessage e chatId (plain No_active_games) w1 = (b, w2)"
    by (cases "sendMessage e chatId (plain No_active_games) w1")
  obtain c w3 where c: "axios (post_games e) Post_games w2 = (c, w3)"
    by (cases "axios (post_games e) Post_games w2")
  note unfolded = ret[unfolded handlePlayCommand.simps[of e chatId w], unfolded a, simplified]
  show ?thesis
  proof (cases a)
    case (Inl x)
    with unfolded pc show ?thesis by auto
  next
    case (Inr found)
    show ?thesis
    proof (cases found)
      case (Some g)
      with unfolded Inr tc show ?thesis by auto
    next
      case None
      note u1 = unfolded[unfolded Inr None b, simplified]
      show ?thesis
      proof (cases b)
        case (Inl x)
        with u1 pc show ?thesis by auto
      next
        case sent: (Inr u)
        note u2 = u1[unfolded sent c, simplified]
        show ?thesis
        proof (cases c)
          case (Inl x)
          with u2 pc show ?thesis by auto
        next
          case created: (Inr v)
          from u2[unfolded created, simplified] obtain r' where
            "(case r' of (Inl x, w4) \<Rightarrow> Some (play_catch e chatId x w4)
              | (Inr u', w4) \<Rightarrow> Some (Inr u', w4)) = Some r"
            by (auto simp add: Option.bind_eq_Some_conv simp del: split_paired_Ex)
          then show ?thesis by (rule k)
        qed
      qed
    qed
  qed
qed

lemma callback_query_handler_reliable:
  assumes "\<forall>k. telegram_ok e k"
  shows "fst (callback_query_handler ms e q w) = Inr ()"
proof (cases "callback_try ms e q w")
  case (Pair r w')
  show ?thesis
  proof (cases r)
    case (Inl x)
    with Pair assms show ?thesis
      by (simp add: callback_query_handler_def try_catch_def sendMessage_def)
  next
    case (Inr u)
    with Pair show ?thesis
      by (simp add: callback_query_handler_def try_catch_def)
  qed
qed

lemma buyCard_reliable:
  assumes "\<forall>k. telegram_ok e k"
  shows "fst (buyCard e chatId gameId selection w) = Inr ()"
  using assms
  by (simp add: buyCard_def try_catch_def axios_def sendMessage_def
      split: prod.splits sum.splits buy_result.splits)

lemma claimBingo_reliable:
  assumes "\<forall>k. telegram_ok e k"
  shows "fst (claimBingo e chatId w) = Inr ()"
  using assms
  by (simp add: claimBingo_def try_catch_def axios_def sendMessage_def
      split: prod.splits sum.splits)

lemma sendGameNotification_logs:
  "sendGameNotification e chatId gameId n w =
     (case notification_message chatId gameId n of
        None \<Rightarrow> (Inr (), w)
      | Some m \<Rightarrow>
          if telegram_ok e (calls w) then (Inr (), tick (w\<lparr>outbox := outbox w @ [(chatId, m)]\<rparr>))
          else (Inr (), console_error ''Notification error:'' TelegramError (tick w)))"
  by (simp add: sendGameNotification_def try_catch_def sendMessage_def split: option.splits)

lemma sendGameNotification2_logs:
  "sendGameNotification2 us e chatId n w =
     (case notification_message2 n of
        None \<Rightarrow> (Inr (), w)
      | Some m \<Rightarrow>
          if telegram_ok e (calls w) then (Inr (), tick (w\<lparr>outbox := outbox w @ [(chatId, m)]\<rparr>))
          else (Inr (), console_error ''Notification error:'' TelegramError (tick w)))"
  by (simp add: sendGameNotification2_def try_catch_def sendMessage_def split: option.splits)








text \<open>
  \<open>showMainMenu\<close> has no \<open>try\<close> block of its own: called from the callback handler its
  failure is caught there, called on its own it is not.
\<close>

lemma showMainMenu_raises:
  "\<not> telegram_ok e (calls w) \<Longrightarrow> showMainMenu e chatId w = (Inl TelegramError, tick w)"
  by (simp add: showMainMenu_def sendMessage_def)






subsection \<open>The winner notification\<close>

text \<open>
  Claim C5, as amended. On a winner event the first bot sends the "you won" message when
  the event's user id is the user id of the chat (\<open>getUserId\<close>), and the opponent's message
  naming the winner and the amount otherwise. The second bot sends the "you won" message
  when the notification's \<open>isWinner\<close> flag is set, and the opponent's message naming
  \<open>winnerName\<close> and the amount otherwise; it consults neither a user id nor its sessions.
  Either bot sends one message, if the Telegram API accepts it.
\<close>

theorem winner_notification_message:
  "outbox (snd (sendGameNotification e chatId gameId (Notify_winner uid username amount) w)) =
     outbox w @
       (if telegram_ok e (calls w)
        then [(chatId,
               \<lparr>content = (if uid = getUserId chatId then You_won amount
                            else Opponent_won username amount),
                inline_keyboard = [[\<lparr>label = ''Play Again'', callback_data = ''main_menu''\<rparr>]]\<rparr>)]
        else [])
   \<and> outbox (snd (sendGameNotification2 userSessions e chatId
                    (Notify2_winner isWinner winnerName amount winnerId) w)) =
     outbox w @
       (if telegram_ok e (calls w)
        then [(chatId, plain (if isWinner then You_won amount else Opponent_won winnerName amount))]
        else [])"
  by (simp add: sendGameNotification_logs sendGameNotification2_logs tick_def console_error_def)

theorem winner_notification_message_witness:
  "outbox (snd (sendGameNotification backend_down 42 ''g1'' (Notify_winner ''telegram_42'' ''abebe'' 95) world0)) =
     [(42, \<lparr>content = You_won 95,
            inline_keyboard = [[\<lparr>label = ''Play Again'', callback_data = ''main_menu''\<rparr>]]\<rparr>)]
   \<and> outbox (snd (sendGameNotification backend_down 42 ''g1'' (Notify_winner ''telegram_7'' ''sara'' 95) world0)) =
     [(42, \<lparr>content = Opponent_won ''sara'' 95,
            inline_keyboard = [[\<lparr>label = ''Play Again'', callback_data = ''main_menu''\<rparr>]]\<rparr>)]
   \<and> outbox (snd (sendGameNotification2 sessions0 backend_down 42
                    (Notify2_winner False ''sara'' 95 ''u7'') world0)) =
     [(42, plain (Opponent_won ''sara'' 95))]"
  using winner_notification_message[where e = backend_down and chatId = 42 and gameId = "''g1''"
      and uid = "''telegram_42''" and username = "''abebe''" and amount = 95 and w = world0
      and userSessions = sessions0 and isWinner = False and winnerName = "''sara''"
      and winnerId = "''u7''"]
    winner_notification_message[where e = backend_down and chatId = 42 and gameId = "''g1''"
      and uid = "''telegram_7''" and username = "''sara''" and amount = 95 and w = world0]
  by (simp add: getUserId_42 world0_def backend_down_def)

text \<open>
  Counterexample to claim C5 as stated: in the second bot, whose session for chat 42 holds
  the user id \<open>u1\<close>, a winner event for the user id \<open>u2\<close> with the flag set shows the
  "you won" message, and a winner event for \<open>u1\<close> itself without the flag shows the
  opponent's message.
\<close>

theorem winner_flag_decides:
  "map_option session_userId (sessions0 42) = Some ''u1''
   \<and> outbox (snd (sendGameNotification2 sessions0 backend_down 42
                    (Notify2_winner True ''sara'' 95 ''u2'') world0)) =
     [(42, plain (You_won 95))]
   \<and> outbox (snd (sendGameNotification2 sessions0 backend_down 42
                    (Notify2_winner False ''abebe'' 95 ''u1'') world0)) =
     [(42, plain (Opponent_won ''abebe'' 95))]"
  by (simp add: sessions0_def sendGameNotification2_logs world0_def backend_down_def tick_def)

subsection \<open>The web client\<close>

text \<open>
  Claim C10. Without a socket, or while not connected, \<open>emit\<close> raises nothing, leaves the
  socket, the connection flag and the attempt count as they are and only adds a warning to
  the console; with a connected socket it hands exactly the given event and payload to the
  socket and changes nothing else.
\<close>

theorem emit_only_when_connected:
  "(socket st = None \<or> \<not> isConnected st \<longrightarrow>
      emit event payload st = (Inr (), st\<lparr>warnings := warnings st @ [''Socket not connected'']\<rparr>))
   \<and> (\<forall>s. socket st = Some s \<and> isConnected st \<longrightarrow>
      snd (emit event payload st) =
        st\<lparr>socket := Some (s\<lparr>emitted := emitted s @ [(event, payload)]\<rparr>)\<rparr>)"
  by (auto simp add: emit_def split: option.splits)

theorem emit_only_when_connected_witness:
  "emit ''claimBingo'' 5 offline =
     (Inr (), \<lparr>socket = None, isConnected = False, reconnectAttempts = 0,
              warnings = [''Socket not connected'']\<rparr>)
   \<and> emit ''claimBingo'' 5 (online\<lparr>isConnected := False\<rparr>) =
     (Inr (), \<lparr>socket = Some \<lparr>emitted = []\<rparr>, isConnected = False, reconnectAttempts = 0,
              warnings = [''Socket not connected'']\<rparr>)
   \<and> snd (emit ''claimBingo'' 5 online) =
     \<lparr>socket = Some \<lparr>emitted = [(''claimBingo'', 5)]\<rparr>, isConnected = True,
      reconnectAttempts = 0, warnings = []\<rparr>"
proof -
  have a: "socket offline = None" by (simp add: offline_def)
  have b: "\<not> isConnected (online\<lparr>isConnected := False\<rparr>)" by simp
  have c: "socket online = Some \<lparr>emitted = []\<rparr> \<and> isConnected online" by (simp add: online_def)
  have "emit ''claimBingo'' 5 offline =
      (Inr (), offline\<lparr>warnings := warnings offline @ [''Socket not connected'']\<rparr>)"
    using a emit_only_when_connected[of offline "''claimBingo''" 5] by blast
  moreover have "emit ''claimBingo'' 5 (online\<lparr>isConnected := False\<rparr>) =
      (Inr (), online\<lparr>isConnected := False,
         warnings := warnings (online\<lparr>isConnected := False\<rparr>) @ [''Socket not connected'']\<rparr>)"
    using b emit_only_when_connected[of "online\<lparr>isConnected := False\<rparr>" "''claimBingo''" 5] by blast
  moreover have "snd (emit ''claimBingo'' 5 online) =
      online\<lparr>socket := Some (\<lparr>emitted = []\<rparr>\<lparr>emitted := emitted \<lparr>emitted = []\<rparr> @ [(''claimBingo'', 5)]\<rparr>)\<rparr>"
    using c emit_only_when_connected[of online "''claimBingo''" 5] by blast
  ultimately show ?thesis
    by (simp add: offline_def online_def)
qed

text \<open>
  Claim C4, as amended. In the game room every \<open>numberCalled\<close> event, be it new, a duplicate
  or out of order, leaves the cards, the selected card and the game state with its called
  numbers as they are: the handler only shows a toast with the number. No sequence number
  is read and nothing is discarded.
\<close>

theorem numberCalled_leaves_marks:
  "myCards (on_numberCalled event r) = myCards r
   \<and> selectedCard (on_numberCalled event r) = selectedCard r
   \<and> gameState (on_numberCalled event r) = gameState r
   \<and> room_timeLeft (on_numberCalled event r) = room_timeLeft r
   \<and> toasts (on_numberCalled event r) =
       toasts r @ [Toast_success (''Number called: '' @ toString (called_number event))]"
  by (simp add: on_numberCalled_def)

theorem numberCalled_leaves_marks_witness:
  "myCards (on_numberCalled \<lparr>called_letter = ''B'', called_number = 7, currentCalls = 1\<rparr> room0) = [calledCard]
   \<and> toasts (on_numberCalled \<lparr>called_letter = ''B'', called_number = 7, currentCalls = 1\<rparr> room0) =
       [Toast_success ''Number called: 7'']"
proof -
  have "toString 7 = ''7''" by code_simp
  then show ?thesis
    using numberCalled_leaves_marks[of "\<lparr>called_letter = ''B'', called_number = 7, currentCalls = 1\<rparr>" room0]
    by (simp add: room0_def)
qed

text \<open>
  Counterexample to claim C4 as stated: replays are not detected. After the fifth call, an
  event that repeats it and an event that carries the third call each change the room's
  state again, by one more toast.
\<close>

theorem numberCalled_replay_shown_again:
  "on_numberCalled \<lparr>called_letter = ''O'', called_number = 71, currentCalls = 5\<rparr>
     (on_numberCalled \<lparr>called_letter = ''O'', called_number = 71, currentCalls = 5\<rparr> room0)
   \<noteq> on_numberCalled \<lparr>called_letter = ''O'', called_number = 71, currentCalls = 5\<rparr> room0
   \<and> on_numberCalled \<lparr>called_letter = ''N'', called_number = 33, currentCalls = 3\<rparr>
     (on_numberCalled \<lparr>called_letter = ''O'', called_number = 71, currentCalls = 5\<rparr> room0)
   \<noteq> on_numberCalled \<lparr>called_letter = ''O'', called_number = 71, currentCalls = 5\<rparr> room0"
proof -
  have "\<And>a b r. length (toasts (on_numberCalled a (on_numberCalled b r))) \<noteq>
      length (toasts (on_numberCalled b r))"
    by (simp add: on_numberCalled_def)
  then show ?thesis by metis
qed

end
